theory Spec2Isabelle
  imports Main "HOL-Library.Word" "HOL-Library.Log_Nat"
begin

unbundle bit_operations_syntax

section \<open>Python values\<close>

text \<open>
  A Python \<open>bytes\<close> object is a list of 8-bit words, a Python \<open>int\<close> is an
  unbounded \<open>int\<close>, a \<open>str\<close> is a \<open>string\<close>.  An exception that a call raises is
  the \<open>Inl\<close> of a sum; \<open>except Exception\<close> catches every value of \<open>exn\<close>.
\<close>

type_synonym byte = "8 word"
type_synonym bytes = "byte list"

datatype exn =
    StructError
  | ValueError
  | KeyError
  | NameError string
  | OverflowError
  | ZeroDivisionError
  | OSError

text \<open>
  A Python \<open>float\<close> is an IEEE 754 binary64 number: the finite ones are rationals,
  and \<open>0.0 == -0.0\<close>.
\<close>

datatype pyfloat = Finite rat | PosInf | NegInf | NaN

text \<open>Rounding to the nearest integer, ties to the even one.\<close>

definition round_half_even :: "rat \<Rightarrow> int" where
  "round_half_even q =
     (let f = \<lfloor>q\<rfloor>; r = q - of_int f in
      if r < 1 / 2 then f else if 1 / 2 < r then f + 1 else if even f then f else f + 1)"

text \<open>The integer part of the binary logarithm of a positive rational.\<close>

definition ilog2 :: "rat \<Rightarrow> int" where
  "ilog2 a = (if 1 \<le> a then bitlen \<lfloor>a\<rfloor> - 1 else - bitlen (\<lceil>1 / a\<rceil> - 1))"

text \<open>
  The binary64 number nearest to a rational, were the exponent unbounded above: 53
  significant bits, ties to even, the numbers below \<open>2 powi (-1022)\<close> in steps of
  \<open>2 powi (-1074)\<close>.
\<close>

definition nearest_binary64 :: "rat \<Rightarrow> rat" where
  "nearest_binary64 x =
     (if x = 0 then 0
      else let e = max (ilog2 \<bar>x\<bar>) (- 1022); ulp = 2 powi (e - 52)
           in of_int (round_half_even (x / ulp)) * ulp)"

definition round_binary64 :: "rat \<Rightarrow> pyfloat" where
  "round_binary64 x =
     (let y = nearest_binary64 x in
      if 2 ^ 1024 \<le> \<bar>y\<bar> then (if 0 < y then PosInf else NegInf) else Finite y)"

text \<open>\<open>float(n)\<close> for an \<open>int\<close>: correctly rounded, \<open>OverflowError\<close> beyond the range.\<close>

definition float_of_int :: "int \<Rightarrow> exn + pyfloat" where
  "float_of_int n =
     (case round_binary64 (of_int n) of Finite y \<Rightarrow> Inr (Finite y) | _ \<Rightarrow> Inl OverflowError)"

text \<open>\<open>a / b\<close> on two floats.\<close>

fun float_truediv :: "pyfloat \<Rightarrow> pyfloat \<Rightarrow> exn + pyfloat" where
  "float_truediv (Finite a) (Finite b) =
     (if b = 0 then Inl ZeroDivisionError else Inr (round_binary64 (a / b)))"
| "float_truediv NaN (Finite b) = (if b = 0 then Inl ZeroDivisionError else Inr NaN)"
| "float_truediv PosInf (Finite b) =
     (if b = 0 then Inl ZeroDivisionError else Inr (if 0 < b then PosInf else NegInf))"
| "float_truediv NegInf (Finite b) =
     (if b = 0 then Inl ZeroDivisionError else Inr (if 0 < b then NegInf else PosInf))"
| "float_truediv (Finite a) PosInf = Inr (Finite 0)"
| "float_truediv (Finite a) NegInf = Inr (Finite 0)"
| "float_truediv a b = Inr NaN"

text \<open>\<open>n / d\<close> for an \<open>int\<close> \<open>n\<close> and a float \<open>d\<close>: \<open>n\<close> is converted first.\<close>

definition int_truediv_float :: "int \<Rightarrow> pyfloat \<Rightarrow> exn + pyfloat" where
  "int_truediv_float n d =
     (case float_of_int n of Inl e \<Rightarrow> Inl e | Inr a \<Rightarrow> float_truediv a d)"

section \<open>The modules that prop.py imports\<close>

text \<open>
  \<open>prop.py\<close> reads its struct layouts and its tables of type codes from the module
  \<open>constants\<close>, which is not among the sources.  They are a parameter of the model:
  a record with one field for each name of \<open>constants\<close> that \<open>prop.py\<close> uses.  A
  \<open>struct.Struct\<close> is the function its \<open>unpack\<close> computes (\<open>Inl StructError\<close> when
  the buffer does not have the size of the format).  The type \<open>'dt\<close> is the type of
  \<open>datetime.datetime\<close> objects.
\<close>

record 'dt constants =
  ST2 :: "bytes \<Rightarrow> exn + (int \<times> int)"
  ST3 :: "bytes \<Rightarrow> exn + int"
  STFIX :: "bytes \<Rightarrow> exn + bytes"
  STVAR :: "bytes \<Rightarrow> exn + (int \<times> int)"
  STI16 :: "bytes \<Rightarrow> exn + int"
  STI32 :: "bytes \<Rightarrow> exn + int"
  STI64 :: "bytes \<Rightarrow> exn + int"
  STF32 :: "bytes \<Rightarrow> exn + pyfloat"
  STF64 :: "bytes \<Rightarrow> exn + pyfloat"
  FIXED_LENGTH_PROPS :: "int list"
  VARIABLE_LENGTH_PROPS :: "int list"
  MULTIPLE_2_BYTES_HEX :: "int list"
  MULTIPLE_4_BYTES_HEX :: "int list"
  MULTIPLE_8_BYTES_HEX :: "int list"
  MULTIPLE_16_BYTES_HEX :: "int list"
  PYTPFLOATINGTIME_START :: "'dt"

text \<open>
  The other names \<open>prop.py\<close> uses come from \<open>utils\<close> (\<open>properHex\<close>, \<open>fromTimeStamp\<close>,
  \<open>filetimeToUtc\<close>), from \<open>enum\<close> (\<open>ErrorCodeType\<close>), from \<open>olefile\<close> and from
  \<open>datetime\<close>; none of them is among the sources either.  \<open>'ts\<close> is the type of what
  \<open>filetimeToUtc\<close> returns.  \<open>ErrorCodeType\<close> is given by the list of its values;
  \<open>properHex\<close> is called on an \<open>int\<close> and on a \<open>bytes\<close> object.
\<close>

record ('dt, 'ts) externals =
  properHex_int :: "int \<Rightarrow> string"
  properHex_bytes :: "bytes \<Rightarrow> string"
  fromTimeStamp :: "'ts \<Rightarrow> exn + 'dt"
  filetimeToUtc :: "int \<Rightarrow> exn + 'ts"
  filetime2datetime :: "int \<Rightarrow> exn + 'dt"
  datetime_max :: "'dt"
  datetime_add_days :: "'dt \<Rightarrow> pyfloat \<Rightarrow> exn + 'dt"
  ErrorCodeType_values :: "int list"

section \<open>Logging\<close>

text \<open>
  The module's \<open>logger\<close> is the list of the records logged so far; a call of
  \<open>logger.warning\<close>, \<open>logger.error\<close> or \<open>logger.exception\<close> appends one.  A message
  is kept as its template and the values formatted into it.
\<close>

datatype level = WARNING | ERROR

datatype 'ts message =
    Unknown_property_type string
  | PtypNull_not_zero
  | Error_type_not_additional int
  | Logged_exception exn
  | Timestamp_caused_exception 'ts
  | Raw_property bytes

type_synonym 'ts logger = "(level \<times> 'ts message) list"

section \<open>prop.py\<close>

subsection \<open>PropBase\<close>

record propBase =
  raw :: bytes
  name :: string
  type :: int
  flags :: int
  flagMandatory :: bool
  flagReadable :: bool
  flagWritable :: bool

text \<open>\<open>str.upper\<close>, on the letters \<open>a\<close> to \<open>z\<close>.\<close>

definition upper :: "string \<Rightarrow> string" where
  "upper s = map (\<lambda>c. let n = (of_char c :: nat) in
                         if 97 \<le> n \<and> n \<le> 122 then char_of (n - 32) else c) s"

text \<open>
  \<open>PropBase.__init__\<close>.  The slice \<open>string[3::-1]\<close> is the first four bytes (or all
  of a shorter string) in reverse.
\<close>

definition PropBase_init ::
  "'dt constants \<Rightarrow> ('dt, 'ts) externals \<Rightarrow> bytes \<Rightarrow> exn + propBase" where
  "PropBase_init C X string =
     (let nm = upper (properHex_bytes X (rev (take 4 string))) in
      case ST2 C string of
        Inl e \<Rightarrow> Inl e
      | Inr (t, fl) \<Rightarrow>
          Inr \<lparr> raw = string, name = nm, type = t, flags = fl,
                flagMandatory = (fl AND 1 = 1),
                flagReadable = (fl AND 2 = 2),
                flagWritable = (fl AND 4 = 4) \<rparr>)"

subsection \<open>VariableLengthProp\<close>

record variableLengthProp = propBase +
  length_field :: int
  reservedFlags :: int
  realLength :: "int option"

text \<open>
  \<open>VariableLengthProp.__init__\<close>.  \<open>//\<close> is Python's floor division, which is \<open>div\<close>
  on \<open>int\<close>; \<open>in\<close> on a tuple is membership in the list.
\<close>

definition VariableLengthProp_init ::
  "'dt constants \<Rightarrow> ('dt, 'ts) externals \<Rightarrow> bytes \<Rightarrow> exn + variableLengthProp" where
  "VariableLengthProp_init C X string =
     (case PropBase_init C X string of
        Inl e \<Rightarrow> Inl e
      | Inr b \<Rightarrow>
          (case STVAR C string of
             Inl e \<Rightarrow> Inl e
           | Inr (len, reserved) \<Rightarrow>
               Inr (propBase.extend b
                 \<lparr> length_field = len, reservedFlags = reserved,
                   realLength =
                     (if type b = 0x001E then Some (len - 1)
                      else if type b = 0x001F then Some (len - 2)
                      else if type b \<in> set (MULTIPLE_2_BYTES_HEX C) then Some (len div 2)
                      else if type b \<in> set (MULTIPLE_4_BYTES_HEX C) then Some (len div 4)
                      else if type b \<in> set (MULTIPLE_8_BYTES_HEX C) then Some (len div 8)
                      else if type b \<in> set (MULTIPLE_16_BYTES_HEX C) then Some (len div 16)
                      else if type b = 0x000D then None
                      else Some len) \<rparr>)))"

subsection \<open>FixedLengthProp\<close>

text \<open>
  What \<open>parseType\<close> returns: \<open>None\<close>, the eight bytes as they are, an \<open>int\<close>, a
  \<open>float\<close>, a \<open>bool\<close>, a \<open>datetime\<close>, or a member of \<open>ErrorCodeType\<close> (named by its
  value).
\<close>

datatype 'dt pyvalue =
    VNone
  | VBytes bytes
  | VInt int
  | VFloat pyfloat
  | VBool bool
  | VDateTime 'dt
  | VErrorCodeType int

text \<open>
  The names bound in the module \<open>prop\<close> when \<open>parseType\<close> runs: its imports, its
  logger, its function and its classes.  Evaluating a global name that is not a builtin
  looks it up here, and raises \<open>NameError\<close> when it is not bound.
\<close>

definition module_globals :: "string list" where
  "module_globals =
     [''datetime'', ''logging'', ''olefile'', ''constants'', ''ErrorCode'', ''ErrorCodeType'',
      ''fromTimeStamp'', ''filetimeToUtc'', ''properHex'', ''logger'', ''createProp'',
      ''PropBase'', ''FixedLengthProp'', ''VariableLengthProp'']"

definition load_global :: "string \<Rightarrow> exn + unit" where
  "load_global n = (if n \<in> set module_globals then Inr () else Inl (NameError n))"

text \<open>\<open>ErrorCodeType(value)\<close>: the member with that value, or \<open>ValueError\<close>.\<close>

definition ErrorCodeType :: "('dt, 'ts) externals \<Rightarrow> int \<Rightarrow> exn + int" where
  "ErrorCodeType X v = (if v \<in> set (ErrorCodeType_values X) then Inr v else Inl ValueError)"

text \<open>
  \<open>FixedLengthProp.parseType\<close>, with \<open>self.raw\<close> and the logger.  In the branch of
  \<open>PtypErrorCode\<close> the handler of \<open>ValueError\<close> logs a warning and then, inside a
  second \<open>try\<close> that catches \<open>ValueError\<close> only, evaluates \<open>ErrorType(value)\<close> for a
  second warning.  The lookup of the name \<open>ErrorType\<close> comes first; what the call would
  return and log, were the name bound, is left out.  In the branch of \<open>PtypTime\<close> the
  handler evaluates \<open>filetimeToUtc(constants.ST3.unpack(value)[0])\<close> again for its
  message, outside any \<open>try\<close>.
\<close>

definition parseType ::
  "'dt constants \<Rightarrow> ('dt, 'ts) externals \<Rightarrow> bytes \<Rightarrow> 'ts logger \<Rightarrow> int \<Rightarrow> bytes
     \<Rightarrow> (exn + 'dt pyvalue) \<times> 'ts logger" where
  "parseType C X self_raw lg type' stream =
     (if type' = 0x0000 then (Inr (VBytes stream), lg)
      else if type' = 0x0001 then
        (Inr VNone,
         if stream \<noteq> [0, 0, 0, 0, 0, 0, 0, 0] then lg @ [(WARNING, PtypNull_not_zero)] else lg)
      else if type' = 0x0002 then
        (case STI16 C stream of Inl e \<Rightarrow> (Inl e, lg) | Inr n \<Rightarrow> (Inr (VInt n), lg))
      else if type' = 0x0003 then
        (case STI32 C stream of Inl e \<Rightarrow> (Inl e, lg) | Inr n \<Rightarrow> (Inr (VInt n), lg))
      else if type' = 0x0004 then
        (case STF32 C stream of Inl e \<Rightarrow> (Inl e, lg) | Inr f \<Rightarrow> (Inr (VFloat f), lg))
      else if type' = 0x0005 then
        (case STF64 C stream of Inl e \<Rightarrow> (Inl e, lg) | Inr f \<Rightarrow> (Inr (VFloat f), lg))
      else if type' = 0x0006 then
        (case STI64 C stream of
           Inl e \<Rightarrow> (Inl e, lg)
         | Inr n \<Rightarrow>
             (case int_truediv_float n (Finite 10000) of
                Inl e \<Rightarrow> (Inl e, lg)
              | Inr f \<Rightarrow> (Inr (VFloat f), lg)))
      else if type' = 0x0007 then
        (case STF64 C stream of
           Inl e \<Rightarrow> (Inl e, lg)
         | Inr f \<Rightarrow>
             (case datetime_add_days X (PYTPFLOATINGTIME_START C) f of
                Inl e \<Rightarrow> (Inl e, lg)
              | Inr d \<Rightarrow> (Inr (VDateTime d), lg)))
      else if type' = 0x000A then
        (case STI32 C stream of
           Inl e \<Rightarrow> (Inl e, lg)
         | Inr v \<Rightarrow>
             (case ErrorCodeType X v of
                Inr m \<Rightarrow> (Inr (VErrorCodeType m), lg)
              | Inl e \<Rightarrow>
                  if e = ValueError then
                    (let lg1 = lg @ [(WARNING, Error_type_not_additional v)] in
                     case load_global ''ErrorType'' of
                       Inl e2 \<Rightarrow> if e2 = ValueError then (Inr (VInt v), lg1) else (Inl e2, lg1)
                     | Inr _ \<Rightarrow> (Inr (VInt v), lg1))
                  else (Inl e, lg)))
      else if type' = 0x000B then
        (case ST3 C stream of Inl e \<Rightarrow> (Inl e, lg) | Inr n \<Rightarrow> (Inr (VBool (n = 1)), lg))
      else if type' = 0x0014 then
        (case STI64 C stream of Inl e \<Rightarrow> (Inl e, lg) | Inr n \<Rightarrow> (Inr (VInt n), lg))
      else if type' = 0x0040 then
        (case (case ST3 C stream of
                 Inl e \<Rightarrow> Inl e
               | Inr rawtime \<Rightarrow>
                   if rawtime < 116444736000000000 then filetime2datetime X rawtime
                   else if rawtime \<noteq> 915151392000000000 then
                     (case filetimeToUtc X rawtime of
                        Inl e \<Rightarrow> Inl e
                      | Inr u \<Rightarrow> fromTimeStamp X u)
                   else Inr (datetime_max X)) of
           Inr d \<Rightarrow> (Inr (VDateTime d), lg)
         | Inl e \<Rightarrow>
             (let lg1 = lg @ [(ERROR, Logged_exception e)] in
              case ST3 C stream of
                Inl e2 \<Rightarrow> (Inl e2, lg1)
              | Inr rawtime \<Rightarrow>
                  (case filetimeToUtc X rawtime of
                     Inl e2 \<Rightarrow> (Inl e2, lg1)
                   | Inr u \<Rightarrow>
                       (Inr (VBytes stream),
                        lg1 @ [(ERROR, Timestamp_caused_exception u),
                                (ERROR, Raw_property self_raw)]))))
      else if type' = 0x0048 then (Inr (VBytes stream), lg)
      else (Inr (VBytes stream), lg))"

record 'dt fixedLengthProp = propBase +
  prop_value :: "'dt pyvalue"

text \<open>\<open>FixedLengthProp.__init__\<close>.\<close>

definition FixedLengthProp_init ::
  "'dt constants \<Rightarrow> ('dt, 'ts) externals \<Rightarrow> 'ts logger \<Rightarrow> bytes
     \<Rightarrow> (exn + 'dt fixedLengthProp) \<times> 'ts logger" where
  "FixedLengthProp_init C X lg string =
     (case PropBase_init C X string of
        Inl e \<Rightarrow> (Inl e, lg)
      | Inr b \<Rightarrow>
          (case STFIX C string of
             Inl e \<Rightarrow> (Inl e, lg)
           | Inr stream \<Rightarrow>
               (case parseType C X (raw b) lg (type b) stream of
                  (Inl e, lg') \<Rightarrow> (Inl e, lg')
                | (Inr v, lg') \<Rightarrow> (Inr (propBase.extend b \<lparr> prop_value = v \<rparr>), lg'))))"

subsection \<open>createProp\<close>

datatype 'dt created_prop = Fixed "'dt fixedLengthProp" | Variable variableLengthProp

definition createProp ::
  "'dt constants \<Rightarrow> ('dt, 'ts) externals \<Rightarrow> 'ts logger \<Rightarrow> bytes
     \<Rightarrow> (exn + 'dt created_prop) \<times> 'ts logger" where
  "createProp C X lg string =
     (case ST2 C string of
        Inl e \<Rightarrow> (Inl e, lg)
      | Inr (temp, _) \<Rightarrow>
          if temp \<in> set (FIXED_LENGTH_PROPS C) then
            (case FixedLengthProp_init C X lg string of
               (Inl e, lg') \<Rightarrow> (Inl e, lg')
             | (Inr p, lg') \<Rightarrow> (Inr (Fixed p), lg'))
          else
            (let lg1 =
                   (if temp \<notin> set (VARIABLE_LENGTH_PROPS C)
                    then lg @ [(WARNING, Unknown_property_type (properHex_int X temp))]
                    else lg)
             in case VariableLengthProp_init C X string of
                  Inl e \<Rightarrow> (Inl e, lg1)
                | Inr p \<Rightarrow> (Inr (Variable p), lg1)))"

section \<open>enums.py\<close>

text \<open>
  A class of \<open>enum.Enum\<close> is the list of the names of its body with their values, in
  the order of the body.  A name whose value already has a name is an alias of the
  first name with that value, and there is one member for each value.  A member is
  its name and its value.
\<close>

type_synonym 'v enum_class = "(string \<times> 'v) list"
type_synonym 'v enum_member = "string \<times> 'v"

text \<open>\<open>cls(v)\<close>: the member with the value \<open>v\<close>, or \<open>ValueError\<close>.\<close>

fun enum_call :: "'v enum_class \<Rightarrow> 'v \<Rightarrow> exn + 'v enum_member" where
  "enum_call [] v = Inl ValueError"
| "enum_call ((n, x) # ms) v = (if x = v then Inr (n, x) else enum_call ms v)"

text \<open>\<open>cls[n]\<close>: the member that the name \<open>n\<close> stands for, or \<open>KeyError\<close>.\<close>

definition enum_getitem :: "'v enum_class \<Rightarrow> string \<Rightarrow> exn + 'v enum_member" where
  "enum_getitem cls n =
     (case map_of cls n of None \<Rightarrow> Inl KeyError | Some v \<Rightarrow> enum_call cls v)"

definition EntryIDType :: "bytes enum_class" where
  "EntryIDType =
     [(''ADDRESS_BOOK_RECIPIENT'',
         [0xDC, 0xA7, 0x40, 0xC8, 0xC0, 0x42, 0x10, 0x1A,
          0xB4, 0xB9, 0x08, 0x00, 0x2B, 0x2F, 0xE1, 0x82]),
      (''CA_OR_PDL_RECIPIENT'',
         [0xFE, 0x42, 0xAA, 0x0A, 0x18, 0xC7, 0x1A, 0x10,
          0xE8, 0x85, 0x0B, 0x65, 0x1C, 0x24, 0x00, 0x00]),
      (''NNTP_NEWSGROUP_FOLDER'',
         [0x38, 0xA1, 0xBB, 0x10, 0x05, 0xE5, 0x10, 0x1A,
          0xA1, 0xBB, 0x08, 0x00, 0x2B, 0x2A, 0x56, 0xC2]),
      (''ONE_OFF_RECIPIENT'',
         [0x81, 0x2B, 0x1F, 0xA4, 0xBE, 0xA3, 0x10, 0x19,
          0x9D, 0x6E, 0x00, 0xDD, 0x01, 0x0F, 0x54, 0x02]),
      (''PERMANENT'',
         [0xDC, 0xA7, 0x40, 0xC8, 0xC0, 0x42, 0x10, 0x1A,
          0xB4, 0xB9, 0x08, 0x00, 0x2B, 0x2F, 0xE1, 0x82]),
      (''PUBLIC_MESSAGE_STORE'',
         [0x1A, 0x44, 0x73, 0x90, 0xAA, 0x66, 0x11, 0xCD,
          0x9B, 0xC8, 0x00, 0xAA, 0x00, 0x2F, 0xC4, 0x5A]),
      (''WRAPPED'',
         [0xC0, 0x91, 0xAD, 0xD3, 0x51, 0x9D, 0xCF, 0x11,
          0xA4, 0xA9, 0x00, 0xAA, 0x00, 0x47, 0xFA, 0xA4])]"

definition EntryIDTypeHex :: "string enum_class" where
  "EntryIDTypeHex =
     [(''ADDRESS_BOOK_RECIPIENT'', ''DCA740C8C042101AB4B908002B2FE182''),
      (''CA_OR_PDL_RECIPIENT'', ''FE42AA0A18C71A10E8850B651C240000''),
      (''NNTP_NEWSGROUP_FOLDER'', ''38A1BB1005E5101AA1BB08002B2A56C2''),
      (''ONE_OFF_RECIPIENT'', ''812B1FA4BEA310199D6E00DD010F5402''),
      (''PERMANENT'', ''DCA740C8C042101AB4B908002B2FE182''),
      (''PUBLIC_MESSAGE_STORE'', ''1A447390AA6611CD9BC800AA002FC45A''),
      (''WRAPPED'', ''C091ADD3519DCF11A4A900AA0047FAA4'')]"

text \<open>\<open>EntryIDType.toHex\<close> and \<open>EntryIDTypeHex.toRaw\<close>: a lookup by \<open>self.name\<close>.\<close>

definition toHex :: "bytes enum_member \<Rightarrow> exn + string enum_member" where
  "toHex self = enum_getitem EntryIDTypeHex (fst self)"

definition toRaw :: "string enum_member \<Rightarrow> exn + bytes enum_member" where
  "toRaw self = enum_getitem EntryIDType (fst self)"

text \<open>
  The hexadecimal encoding that the round-trip law of the specification compares with
  (\<open>hexEncode\<close>, section 8): two upper-case digits for each byte.
\<close>

definition hex_digit :: "nat \<Rightarrow> char" where
  "hex_digit n = ''0123456789ABCDEF'' ! n"

definition hexEncode :: "bytes \<Rightarrow> string" where
  "hexEncode b = concat (map (\<lambda>x. [hex_digit (unat x div 16), hex_digit (unat x mod 16)]) b)"

section \<open>msg\_classes/meeting\_forward.py\<close>

text \<open>
  The enumeration \<open>RecurPatternType\<close> is imported from \<open>enums\<close>, whose source does
  not declare it.  Its members are the eight that \<open>headerFormatProperties\<close> names;
  \<open>Other_pattern\<close> stands for any member the enumeration may have beyond them.
\<close>

datatype RecurPatternType =
    DAY | WEEK | MONTH | MONTH_NTH | MONTH_END | HJ_MONTH | HJ_MONTH_NTH | HJ_MONTH_END
  | Other_pattern int

record RecurrencePattern =
  patternType :: RecurPatternType

text \<open>
  The attributes of a \<open>MeetingForwardNotification\<close> that \<open>headerFormatProperties\<close>
  reads.  They are properties of the base classes; each is the value it returns.
\<close>

record 'dt meetingForwardNotification =
  appointmentRecur :: "RecurrencePattern option"
  subject :: "string option"
  location :: "string option"
  startDate :: "'dt option"
  endDate :: "'dt option"
  datetimeFormat :: string
  recurrencePattern :: "string option"
  organizer :: "string option"
  to :: "string option"
  cc :: "string option"
  bcc :: "string option"
  importanceString :: "string option"

type_synonym header_format = "(string \<times> (string \<times> string option) list) list"

text \<open>\<open>d.__format__(f) if d else None\<close>, with \<open>fmt\<close> for \<open>datetime.__format__\<close>.\<close>

definition format_if_set ::
  "('dt \<Rightarrow> string \<Rightarrow> exn + string) \<Rightarrow> 'dt option \<Rightarrow> string \<Rightarrow> exn + string option" where
  "format_if_set fmt d f =
     (case d of
        None \<Rightarrow> Inr None
      | Some x \<Rightarrow> (case fmt x f of Inl e \<Rightarrow> Inl e | Inr s \<Rightarrow> Inr (Some s)))"

text \<open>
  \<open>MeetingForwardNotification.headerFormatProperties\<close>.  Subscripting the dictionary
  with a key it does not hold raises \<open>KeyError\<close>.
\<close>

definition headerFormatProperties ::
  "('dt \<Rightarrow> string \<Rightarrow> exn + string) \<Rightarrow> 'dt meetingForwardNotification \<Rightarrow> exn + header_format" where
  "headerFormatProperties fmt self =
     (case (case appointmentRecur self of
              None \<Rightarrow> Inr ''(none)''
            | Some r \<Rightarrow>
                (case map_of
                        [(DAY, ''Daily''),
                         (WEEK, ''Weekly''),
                         (MONTH, ''Monthly''),
                         (MONTH_NTH, ''Monthly''),
                         (MONTH_END, ''Monthly''),
                         (HJ_MONTH, ''Monthly''),
                         (HJ_MONTH_NTH, ''Monthly''),
                         (HJ_MONTH_END, ''Monthly'')] (patternType r) of
                   None \<Rightarrow> Inl KeyError
                 | Some s \<Rightarrow> Inr s)) of
        Inl e \<Rightarrow> Inl e
      | Inr recur \<Rightarrow>
          (case format_if_set fmt (startDate self) (datetimeFormat self) of
             Inl e \<Rightarrow> Inl e
           | Inr start \<Rightarrow>
               (case format_if_set fmt (endDate self) (datetimeFormat self) of
                  Inl e \<Rightarrow> Inl e
                | Inr end' \<Rightarrow>
                    Inr [(''-main info-'',
                            [(''Subject'', subject self),
                             (''Location'', location self)]),
                         (''-date-'',
                            [(''Start'', start),
                             (''End'', end')]),
                         (''-recurrence-'',
                            [(''Recurrance'', Some recur),
                             (''Recurrence Pattern'', recurrencePattern self)]),
                         (''-attendees-'',
                            [(''Organizer'', organizer self),
                             (''Required Attendees'', to self),
                             (''Optional Attendees'', cc self),
                             (''Resources'', bcc self)]),
                         (''-importance-'',
                            [(''Importance'', importanceString self)])])))"

text \<open>\<open>h[section][key]\<close> on a header block.\<close>

definition header_item :: "header_format \<Rightarrow> string \<Rightarrow> string \<Rightarrow> string option option" where
  "header_item h sec k = (case map_of h sec of None \<Rightarrow> None | Some kv \<Rightarrow> map_of kv k)"

section \<open>An instance of the imported modules\<close>

text \<open>
  The examples below run the code on concrete property entries.  For them the imported
  names are fixed as follows.  A property entry is 16 bytes, little-endian: the type
  code in bytes 0 and 1, the flags in bytes 4 to 7, and in bytes 8 to 15 either the
  value of a fixed length property or the length and the reserved field of a variable
  length one.  The tables list the type codes of the data model of the specification
  (section 4.1).  A \<open>datetime\<close> is counted in microseconds from 1970-01-01, and
  \<open>filetimeToUtc\<close> returns seconds from 1970-01-01.
\<close>

definition le_uint :: "bytes \<Rightarrow> int" where
  "le_uint bs = foldr (\<lambda>b acc. uint b + 256 * acc) bs 0"

definition le_sint :: "bytes \<Rightarrow> int" where
  "le_sint bs =
     (let u = le_uint bs; w = 2 ^ (8 * length bs) in if 2 * u < w then u else u - w)"

definition unpack16 :: "(bytes \<Rightarrow> 'a) \<Rightarrow> bytes \<Rightarrow> exn + 'a" where
  "unpack16 f s = (if length s = 16 then Inr (f s) else Inl StructError)"

definition unpack8 :: "(bytes \<Rightarrow> 'a) \<Rightarrow> bytes \<Rightarrow> exn + 'a" where
  "unpack8 f s = (if length s = 8 then Inr (f s) else Inl StructError)"

definition decode_binary64 :: "int \<Rightarrow> pyfloat" where
  "decode_binary64 w =
     (let sign = (if w div 2 ^ 63 = 0 then 1 else - 1);
          e = (w div 2 ^ 52) mod 2 ^ 11;
          m = w mod 2 ^ 52
      in if e = 2047 then (if m \<noteq> 0 then NaN else if sign = 1 then PosInf else NegInf)
         else if e = 0 then Finite (sign * of_int m * 2 powi (- 1074))
         else Finite (sign * of_int (2 ^ 52 + m) * 2 powi (e - 1075)))"

definition decode_binary32 :: "int \<Rightarrow> pyfloat" where
  "decode_binary32 w =
     (let sign = (if w div 2 ^ 31 = 0 then 1 else - 1);
          e = (w div 2 ^ 23) mod 2 ^ 8;
          m = w mod 2 ^ 23
      in if e = 255 then (if m \<noteq> 0 then NaN else if sign = 1 then PosInf else NegInf)
         else if e = 0 then Finite (sign * of_int m * 2 powi (- 149))
         else Finite (sign * of_int (2 ^ 23 + m) * 2 powi (e - 150)))"

definition example_constants :: "int constants" where
  "example_constants =
     \<lparr> ST2 = unpack16 (\<lambda>s. (le_uint (take 2 s), le_uint (take 4 (drop 4 s)))),
       ST3 = unpack8 le_uint,
       STFIX = unpack16 (drop 8),
       STVAR = unpack16 (\<lambda>s. (le_uint (take 4 (drop 8 s)), le_uint (drop 12 s))),
       STI16 = unpack8 (\<lambda>s. le_sint (take 2 s)),
       STI32 = unpack8 (\<lambda>s. le_sint (take 4 s)),
       STI64 = unpack8 le_sint,
       STF32 = unpack8 (\<lambda>s. decode_binary32 (le_uint (take 4 s))),
       STF64 = unpack8 (\<lambda>s. decode_binary64 (le_uint s)),
       FIXED_LENGTH_PROPS =
         [0x0000, 0x0001, 0x0002, 0x0003, 0x0004, 0x0005, 0x0006, 0x0007, 0x000A, 0x000B,
          0x0014, 0x0040, 0x0048],
       VARIABLE_LENGTH_PROPS =
         [0x000D, 0x001E, 0x001F, 0x0102, 0x1002, 0x1003, 0x1004, 0x1005, 0x1007, 0x1014,
          0x101E, 0x101F, 0x1040, 0x1048, 0x1102],
       MULTIPLE_2_BYTES_HEX = [0x1002],
       MULTIPLE_4_BYTES_HEX = [0x1003, 0x1004],
       MULTIPLE_8_BYTES_HEX = [0x1005, 0x1007, 0x1014, 0x1040],
       MULTIPLE_16_BYTES_HEX = [0x1048],
       PYTPFLOATINGTIME_START = - 2209161600000000 \<rparr>"

fun hex_of_nat :: "nat \<Rightarrow> string" where
  "hex_of_nat n =
     (if n < 16 then [hex_digit n] else hex_of_nat (n div 16) @ [hex_digit (n mod 16)])"

definition in_datetime_range :: "int \<Rightarrow> bool" where
  "in_datetime_range d \<longleftrightarrow> - 62135596800000000 \<le> d \<and> d \<le> 253402300799999999"

definition example_externals :: "(int, rat) externals" where
  "example_externals =
     \<lparr> properHex_int =
         (\<lambda>n. let a = hex_of_nat (nat n) in if odd (length a) then CHR ''0'' # a else a),
       properHex_bytes = hexEncode,
       fromTimeStamp =
         (\<lambda>u. let d = round_half_even (u * 1000000)
              in if in_datetime_range d then Inr d else Inl OverflowError),
       filetimeToUtc = (\<lambda>t. Inr ((of_int t - 116444736000000000) / 10000000)),
       filetime2datetime = (\<lambda>t. Inr (t div 10 - 11644473600000000)),
       datetime_max = 253402300799999999,
       datetime_add_days =
         (\<lambda>d f. case f of
                  Finite q \<Rightarrow>
                    (let r = d + round_half_even (q * 86400000000)
                     in if in_datetime_range r then Inr r else Inl OverflowError)
                | NaN \<Rightarrow> Inl ValueError
                | _ \<Rightarrow> Inl OverflowError),
       ErrorCodeType_values = [0x00000000, 0x000003EA, 0x000003EB, 0x000003ED] \<rparr>"

text \<open>A property entry with the given type code, flags and last eight bytes.\<close>

definition entry :: "byte \<Rightarrow> byte \<Rightarrow> byte \<Rightarrow> bytes \<Rightarrow> bytes" where
  "entry t0 t1 fl payload = [t0, t1, 0, 0, fl, 0, 0, 0] @ payload"

text \<open>
  A meeting forward notification for the examples, with the recurrence left open, and a
  \<open>datetime.__format__\<close> that knows the format \<open>%c\<close>.
\<close>

definition example_meeting :: "RecurrencePattern option \<Rightarrow> int meetingForwardNotification" where
  "example_meeting r =
     \<lparr> appointmentRecur = r, subject = Some ''Review'', location = None,
       startDate = Some 86400000000, endDate = None, datetimeFormat = ''%c'',
       recurrencePattern = None, organizer = Some ''A'', to = Some ''B'', cc = None,
       bcc = None, importanceString = None \<rparr>"

definition example_format :: "int \<Rightarrow> string \<Rightarrow> exn + string" where
  "example_format d f = (if f = ''%c'' then Inr ''Fri Jan  2 00:00:00 1970'' else Inl ValueError)"

section \<open>Properties\<close>

subsection \<open>The instance on a property entry\<close>

lemma example_ST2:
  "length payload = 8 \<Longrightarrow>
   ST2 example_constants (entry t0 t1 fl payload) = Inr (uint t0 + 256 * uint t1, uint fl)"
  by (simp add: example_constants_def unpack16_def entry_def le_uint_def)

lemma example_STVAR:
  "STVAR example_constants (entry t0 t1 fl [l0, l1, l2, l3, r0, r1, r2, r3]) =
     Inr (le_uint [l0, l1, l2, l3], le_uint [r0, r1, r2, r3])"
  by (simp add: example_constants_def unpack16_def entry_def)

lemma example_STFIX:
  "length payload = 8 \<Longrightarrow> STFIX example_constants (entry t0 t1 fl payload) = Inr payload"
  by (simp add: example_constants_def unpack16_def entry_def)

lemma example_tables:
  "FIXED_LENGTH_PROPS example_constants =
     [0x0000, 0x0001, 0x0002, 0x0003, 0x0004, 0x0005, 0x0006, 0x0007, 0x000A, 0x000B,
      0x0014, 0x0040, 0x0048]"
  "VARIABLE_LENGTH_PROPS example_constants =
     [0x000D, 0x001E, 0x001F, 0x0102, 0x1002, 0x1003, 0x1004, 0x1005, 0x1007, 0x1014,
      0x101E, 0x101F, 0x1040, 0x1048, 0x1102]"
  "MULTIPLE_2_BYTES_HEX example_constants = [0x1002]"
  "MULTIPLE_4_BYTES_HEX example_constants = [0x1003, 0x1004]"
  "MULTIPLE_8_BYTES_HEX example_constants = [0x1005, 0x1007, 0x1014, 0x1040]"
  "MULTIPLE_16_BYTES_HEX example_constants = [0x1048]"
  by (simp_all add: example_constants_def)

lemma example_ST3:
  "length payload = 8 \<Longrightarrow> ST3 example_constants payload = Inr (le_uint payload)"
  by (simp add: example_constants_def unpack8_def)

lemma example_STI32:
  "length payload = 8 \<Longrightarrow> STI32 example_constants payload = Inr (le_sint (take 4 payload))"
  by (simp add: example_constants_def unpack8_def)

lemma example_STI64:
  "length payload = 8 \<Longrightarrow> STI64 example_constants payload = Inr (le_sint payload)"
  by (simp add: example_constants_def unpack8_def)

lemma example_properHex_9999: "properHex_int example_externals 0x9999 = ''9999''"
  by (simp add: example_externals_def hex_digit_def)

lemma example_time_fns:
  "filetime2datetime example_externals t = Inr (t div 10 - 11644473600000000)"
  "filetimeToUtc example_externals t = Inr ((of_int t - 116444736000000000) / 10000000)"
  "fromTimeStamp example_externals u =
     (let d = round_half_even (u * 1000000)
      in if in_datetime_range d then Inr d else Inl OverflowError)"
  "datetime_max example_externals = 253402300799999999"
  by (simp_all add: example_externals_def)

lemma round_half_even_of_int [simp]: "round_half_even (of_int n) = n"
  by (simp add: round_half_even_def)

lemma round_half_even_numeral [simp]: "round_half_even (numeral k) = numeral k"
  using round_half_even_of_int [of "numeral k"] by simp

subsection \<open>The length of a variable length property\<close>

text \<open>
  Claim C1.  When the header and the length of an entry unpack, \<open>VariableLengthProp\<close>
  is constructed, and its \<open>realLength\<close> is a function of the type code and the
  length field alone: the length minus 1 for \<open>0x001E\<close>, minus 2 for \<open>0x001F\<close>, the
  length divided (flooring) by 2, 4, 8 or 16 for a type code of the table of that
  element width, \<open>None\<close> for \<open>0x000D\<close>, and the length unchanged for any other type
  code.  The tables are those of \<open>constants\<close>; the code tests them in this order.
\<close>

theorem realLength_rule:
  assumes "ST2 C string = Inr (t, fl)" and "STVAR C string = Inr (len, reserved)"
  shows "\<exists>p. VariableLengthProp_init C X string = Inr p \<and> type p = t \<and> length_field p = len \<and>
           realLength p =
             (if t = 0x001E then Some (len - 1)
              else if t = 0x001F then Some (len - 2)
              else if t \<in> set (MULTIPLE_2_BYTES_HEX C) then Some (len div 2)
              else if t \<in> set (MULTIPLE_4_BYTES_HEX C) then Some (len div 4)
              else if t \<in> set (MULTIPLE_8_BYTES_HEX C) then Some (len div 8)
              else if t \<in> set (MULTIPLE_16_BYTES_HEX C) then Some (len div 16)
              else if t = 0x000D then None
              else Some len)"
  using assms
  by (simp add: VariableLengthProp_init_def PropBase_init_def propBase.defs)

text \<open>
  The three examples of the specification: type \<open>0x001E\<close> with length 10 gives 9,
  type \<open>0x001F\<close> with length 10 gives 8, and the array type \<open>0x1048\<close> of 16-byte
  elements with length 32 gives 2.
\<close>

theorem realLength_rule_examples:
  "map_sum id realLength (VariableLengthProp_init example_constants example_externals
      (entry 0x1E 0x00 6 [10, 0, 0, 0, 0, 0, 0, 0])) = Inr (Some 9) \<and>
   map_sum id realLength (VariableLengthProp_init example_constants example_externals
      (entry 0x1F 0x00 6 [10, 0, 0, 0, 0, 0, 0, 0])) = Inr (Some 8) \<and>
   map_sum id realLength (VariableLengthProp_init example_constants example_externals
      (entry 0x48 0x10 6 [32, 0, 0, 0, 0, 0, 0, 0])) = Inr (Some 2)"
proof -
  have a: "ST2 example_constants (entry 0x1E 0x00 6 [10, 0, 0, 0, 0, 0, 0, 0]) = Inr (0x1E, 6)"
    by (simp add: example_ST2)
  have b: "ST2 example_constants (entry 0x1F 0x00 6 [10, 0, 0, 0, 0, 0, 0, 0]) = Inr (0x1F, 6)"
    by (simp add: example_ST2)
  have c: "ST2 example_constants (entry 0x48 0x10 6 [32, 0, 0, 0, 0, 0, 0, 0]) = Inr (0x1048, 6)"
    by (simp add: example_ST2)
  have l10: "STVAR example_constants (entry t0 t1 fl [10, 0, 0, 0, 0, 0, 0, 0]) = Inr (10, 0)"
    for t0 t1 fl
    by (simp add: example_STVAR le_uint_def)
  have l32: "STVAR example_constants (entry t0 t1 fl [32, 0, 0, 0, 0, 0, 0, 0]) = Inr (32, 0)"
    for t0 t1 fl
    by (simp add: example_STVAR le_uint_def)
  from realLength_rule [OF a l10, of example_externals]
       realLength_rule [OF b l10, of example_externals]
       realLength_rule [OF c l32, of example_externals]
  show ?thesis
    by (auto simp: example_tables)
qed

text \<open>
  Claim C10.  The subtraction for the two string types is not guarded: a narrow
  string whose length field is below 1, or a wide string whose length field is below
  2, is constructed without an error and has a negative \<open>realLength\<close>, the length
  field minus 1 or minus 2.
\<close>

theorem realLength_negative:
  assumes "ST2 C string = Inr (t, fl)" and "STVAR C string = Inr (len, reserved)"
    and "t = 0x001E \<and> len < 1 \<or> t = 0x001F \<and> len < 2"
  shows "\<exists>p r. VariableLengthProp_init C X string = Inr p \<and> realLength p = Some r \<and> r < 0 \<and>
           r = len - (if t = 0x001E then 1 else 2)"
  using assms
  by (auto simp: VariableLengthProp_init_def PropBase_init_def propBase.defs)

text \<open>
  Type \<open>0x001E\<close> with length 0 gives \<open>-1\<close>; type \<open>0x001F\<close> gives \<open>-2\<close> with length 0
  and \<open>-1\<close> with length 1.
\<close>

theorem realLength_negative_examples:
  "map_sum id realLength (VariableLengthProp_init example_constants example_externals
      (entry 0x1E 0x00 6 [0, 0, 0, 0, 0, 0, 0, 0])) = Inr (Some (- 1)) \<and>
   map_sum id realLength (VariableLengthProp_init example_constants example_externals
      (entry 0x1F 0x00 6 [0, 0, 0, 0, 0, 0, 0, 0])) = Inr (Some (- 2)) \<and>
   map_sum id realLength (VariableLengthProp_init example_constants example_externals
      (entry 0x1F 0x00 6 [1, 0, 0, 0, 0, 0, 0, 0])) = Inr (Some (- 1))"
proof -
  have a: "ST2 example_constants (entry 0x1E 0x00 6 p) = Inr (0x1E, 6)" if "length p = 8" for p
    using that by (simp add: example_ST2)
  have b: "ST2 example_constants (entry 0x1F 0x00 6 p) = Inr (0x1F, 6)" if "length p = 8" for p
    using that by (simp add: example_ST2)
  have l0: "STVAR example_constants (entry t0 t1 fl [0, 0, 0, 0, 0, 0, 0, 0]) = Inr (0, 0)"
    for t0 t1 fl
    by (simp add: example_STVAR le_uint_def)
  have l1: "STVAR example_constants (entry t0 t1 fl [1, 0, 0, 0, 0, 0, 0, 0]) = Inr (1, 0)"
    for t0 t1 fl
    by (simp add: example_STVAR le_uint_def)
  from realLength_negative [OF a l0, of example_externals]
       realLength_negative [OF b l0, of example_externals]
       realLength_negative [OF b l1, of example_externals]
  show ?thesis
    by auto
qed

subsection \<open>Unknown type codes\<close>

text \<open>
  Claim C4.  For an entry whose type code is in neither table, \<open>createProp\<close> does not
  raise: it logs one warning, with the type code in hexadecimal, and returns the
  \<open>VariableLengthProp\<close> of the entry.  The entry is one on which the header and the
  length unpack, as they do on the 16 bytes of a property entry.
\<close>

theorem createProp_unknown_type:
  assumes "ST2 C string = Inr (t, fl)" and "STVAR C string = Inr (len, reserved)"
    and "t \<notin> set (FIXED_LENGTH_PROPS C)" and "t \<notin> set (VARIABLE_LENGTH_PROPS C)"
  shows "\<exists>p. createProp C X lg string =
               (Inr (Variable p), lg @ [(WARNING, Unknown_property_type (properHex_int X t))]) \<and>
             VariableLengthProp_init C X string = Inr p \<and> type p = t"
  using assms
  by (simp add: createProp_def VariableLengthProp_init_def PropBase_init_def propBase.defs)

text \<open>The type code \<open>0x9999\<close> of the specification.\<close>

theorem createProp_unknown_type_example:
  "\<exists>p. createProp example_constants example_externals []
          (entry 0x99 0x99 6 [42, 0, 0, 0, 0, 0, 0, 0]) =
        (Inr (Variable p), [(WARNING, Unknown_property_type ''9999'')]) \<and> type p = 0x9999"
proof -
  have a: "ST2 example_constants (entry 0x99 0x99 6 [42, 0, 0, 0, 0, 0, 0, 0]) = Inr (0x9999, 6)"
    by (simp add: example_ST2)
  have b: "STVAR example_constants (entry 0x99 0x99 6 [42, 0, 0, 0, 0, 0, 0, 0]) = Inr (42, 0)"
    by (simp add: example_STVAR le_uint_def)
  have c: "0x9999 \<notin> set (FIXED_LENGTH_PROPS example_constants)"
    by (simp add: example_tables)
  have d: "0x9999 \<notin> set (VARIABLE_LENGTH_PROPS example_constants)"
    by (simp add: example_tables)
  from createProp_unknown_type [OF a b c d, of example_externals "[]"] show ?thesis
    by (auto simp: example_properHex_9999)
qed

subsection \<open>Error codes\<close>

text \<open>
  Claim C3.  A value of \<open>ErrorCodeType\<close> decodes to its member.  For a value outside
  the enumeration the code logs its first warning and then, to build the second one,
  evaluates \<open>ErrorType(value)\<close>.  The module binds no name \<open>ErrorType\<close> (it imports
  \<open>ErrorCode\<close> and \<open>ErrorCodeType\<close>), the handler around it catches \<open>ValueError\<close>
  only, and so \<open>parseType\<close> raises \<open>NameError\<close> instead of returning the integer.
\<close>

theorem errorcode_unmapped_raises:
  assumes "STI32 C stream = Inr v" and "v \<notin> set (ErrorCodeType_values X)"
  shows "parseType C X self_raw lg 0x000A stream =
           (Inl (NameError ''ErrorType''), lg @ [(WARNING, Error_type_not_additional v)])"
  using assms
  by (simp add: parseType_def ErrorCodeType_def load_global_def module_globals_def)

text \<open>The entry of type \<open>0x000A\<close> with the value 42: \<open>createProp\<close> raises.\<close>

theorem errorcode_unmapped_raises_example:
  "createProp example_constants example_externals []
     (entry 0x0A 0x00 6 [42, 0, 0, 0, 0, 0, 0, 0]) =
   (Inl (NameError ''ErrorType''), [(WARNING, Error_type_not_additional 42)])"
proof -
  have a: "STI32 example_constants [42, 0, 0, 0, 0, 0, 0, 0] = Inr 42"
    by (simp add: example_STI32 le_sint_def le_uint_def)
  have b: "42 \<notin> set (ErrorCodeType_values example_externals)"
    by (simp add: example_externals_def)
  have c: "ST2 example_constants (entry 0x0A 0x00 6 [42, 0, 0, 0, 0, 0, 0, 0]) = Inr (0x000A, 6)"
    by (simp add: example_ST2)
  show ?thesis
    by (simp add: createProp_def FixedLengthProp_init_def PropBase_init_def c example_STFIX
        example_tables errorcode_unmapped_raises [OF a b])
qed

text \<open>The part of the claim that the code keeps: a value of the enumeration.\<close>

lemma errorcode_mapped:
  assumes "STI32 C stream = Inr v" and "v \<in> set (ErrorCodeType_values X)"
  shows "parseType C X self_raw lg 0x000A stream = (Inr (VErrorCodeType v), lg)"
  using assms
  by (simp add: parseType_def ErrorCodeType_def)

subsection \<open>Guid\<close>

text \<open>
  Claim C8.  For the type \<open>0x0048\<close> \<open>parseType\<close> converts nothing: it returns the
  eight bytes it was given, raises nothing and logs nothing.
\<close>

theorem guid_unchanged:
  "parseType C X self_raw lg 0x0048 stream = (Inr (VBytes stream), lg)"
  by (simp add: parseType_def)

subsection \<open>Time\<close>

text \<open>
  Claim C2.  For the type \<open>0x0040\<close> the unsigned 64-bit value \<open>rawtime\<close> that
  \<open>ST3\<close> unpacks is decoded in one of three ways.  Below 116444736000000000 the
  result is what \<open>olefile\<close>'s \<open>filetime2datetime\<close> returns for it; the value
  915151392000000000 decodes to \<open>datetime.max\<close>; any other value decodes to
  \<open>fromTimeStamp(filetimeToUtc(rawtime))\<close>.  The three converters are not among the
  sources and are parameters; each case is stated for a conversion that returns.
\<close>

theorem time_three_way:
  assumes "ST3 C stream = Inr rawtime"
  shows "(rawtime < 116444736000000000 \<longrightarrow> filetime2datetime X rawtime = Inr d \<longrightarrow>
            parseType C X self_raw lg 0x0040 stream = (Inr (VDateTime d), lg)) \<and>
         (rawtime = 915151392000000000 \<longrightarrow>
            parseType C X self_raw lg 0x0040 stream = (Inr (VDateTime (datetime_max X)), lg)) \<and>
         (116444736000000000 \<le> rawtime \<longrightarrow> rawtime \<noteq> 915151392000000000 \<longrightarrow>
          filetimeToUtc X rawtime = Inr u \<longrightarrow> fromTimeStamp X u = Inr d \<longrightarrow>
            parseType C X self_raw lg 0x0040 stream = (Inr (VDateTime d), lg))"
  using assms by (simp add: parseType_def)

text \<open>
  One day before 1970-01-01, the sentinel, and one day after 1970-01-01, with the
  converters of the instance.
\<close>

theorem time_three_way_examples:
  "parseType example_constants example_externals [] []
      0x0040 [0x00, 0xC0, 0xD4, 0xAA, 0x15, 0xB1, 0x9D, 0x01] =
        (Inr (VDateTime (- 86400000000)), []) \<and>
   parseType example_constants example_externals [] []
      0x0040 [0x00, 0x40, 0xDD, 0xA3, 0x57, 0x45, 0xB3, 0x0C] =
        (Inr (VDateTime 253402300799999999), []) \<and>
   parseType example_constants example_externals [] []
      0x0040 [0x00, 0x40, 0xA8, 0xFF, 0xA7, 0xB2, 0x9D, 0x01] =
        (Inr (VDateTime 86400000000), [])"
proof -
  have a: "ST3 example_constants [0x00, 0xC0, 0xD4, 0xAA, 0x15, 0xB1, 0x9D, 0x01] =
             Inr 116443872000000000"
    by (simp add: example_ST3 le_uint_def)
  have b: "ST3 example_constants [0x00, 0x40, 0xDD, 0xA3, 0x57, 0x45, 0xB3, 0x0C] =
             Inr 915151392000000000"
    by (simp add: example_ST3 le_uint_def)
  have c: "ST3 example_constants [0x00, 0x40, 0xA8, 0xFF, 0xA7, 0xB2, 0x9D, 0x01] =
             Inr 116445600000000000"
    by (simp add: example_ST3 le_uint_def)
  from time_three_way [OF a, where X = example_externals and self_raw = "[]" and lg = "[]" and d = "- 86400000000"]
  have 1: "parseType example_constants example_externals [] []
      0x0040 [0x00, 0xC0, 0xD4, 0xAA, 0x15, 0xB1, 0x9D, 0x01] =
        (Inr (VDateTime (- 86400000000)), [])"
    by (simp add: example_time_fns)
  from time_three_way [OF b, where X = example_externals and self_raw = "[]" and lg = "[]"]
  have 2: "parseType example_constants example_externals [] []
      0x0040 [0x00, 0x40, 0xDD, 0xA3, 0x57, 0x45, 0xB3, 0x0C] =
        (Inr (VDateTime 253402300799999999), [])"
    by (simp add: example_time_fns)
  from time_three_way [OF c, where X = example_externals and self_raw = "[]" and lg = "[]" and d = 86400000000 and u = 86400]
  have 3: "parseType example_constants example_externals [] []
      0x0040 [0x00, 0x40, 0xA8, 0xFF, 0xA7, 0xB2, 0x9D, 0x01] =
        (Inr (VDateTime 86400000000), [])"
    by (simp add: example_time_fns in_datetime_range_def)
  from 1 2 3 show ?thesis by simp
qed

text \<open>
  Claim C6.  When the conversion to a \<open>datetime\<close> raises (in \<open>filetime2datetime\<close> below
  the threshold, in \<open>fromTimeStamp\<close> above it), \<open>parseType\<close> does not raise: it logs the
  exception, then the timestamp \<open>filetimeToUtc\<close> computes from the raw value, then
  \<open>self.raw\<close>, and returns the eight bytes undecoded.  The handler calls
  \<open>filetimeToUtc\<close> on the raw value for its message, so that call is one that returns.
\<close>

theorem time_overflow_caught:
  assumes "ST3 C stream = Inr rawtime" and "filetimeToUtc X rawtime = Inr u"
    and "rawtime < 116444736000000000 \<and> filetime2datetime X rawtime = Inl e \<or>
         116444736000000000 \<le> rawtime \<and> rawtime \<noteq> 915151392000000000 \<and>
           fromTimeStamp X u = Inl e"
  shows "parseType C X self_raw lg 0x0040 stream =
           (Inr (VBytes stream),
            lg @ [(ERROR, Logged_exception e), (ERROR, Timestamp_caused_exception u),
                  (ERROR, Raw_property self_raw)])"
  using assms by (auto simp: parseType_def)

text \<open>
  The entry whose raw value is \<open>0xFFFFFFFFFFFFFFFF\<close>, far beyond the year 9999:
  \<open>createProp\<close> returns the property with the eight bytes as its value and three
  records in the log.
\<close>

theorem time_overflow_caught_example:
  "\<exists>p. createProp example_constants example_externals []
          (entry 0x40 0x00 6 [0xFF, 0xFF, 0xFF, 0xFF, 0xFF, 0xFF, 0xFF, 0xFF]) =
        (Inr (Fixed p),
         [(ERROR, Logged_exception OverflowError),
          (ERROR, Timestamp_caused_exception (3666059867541910323 / 2000000)),
          (ERROR, Raw_property
             (entry 0x40 0x00 6 [0xFF, 0xFF, 0xFF, 0xFF, 0xFF, 0xFF, 0xFF, 0xFF]))]) \<and>
        prop_value p = VBytes [0xFF, 0xFF, 0xFF, 0xFF, 0xFF, 0xFF, 0xFF, 0xFF]"
proof -
  let ?s = "[0xFF, 0xFF, 0xFF, 0xFF, 0xFF, 0xFF, 0xFF, 0xFF] :: bytes"
  have a: "ST3 example_constants ?s = Inr 18446744073709551615"
    by (simp add: example_ST3 le_uint_def)
  have b: "filetimeToUtc example_externals 18446744073709551615 =
             Inr (3666059867541910323 / 2000000)"
    by (simp add: example_time_fns)
  have c: "fromTimeStamp example_externals (3666059867541910323 / 2000000) = Inl OverflowError"
    by (simp add: example_time_fns round_half_even_def in_datetime_range_def Let_def)
  have d: "ST2 example_constants (entry 0x40 0x00 6 ?s) = Inr (0x0040, 6)"
    by (simp add: example_ST2)
  have "parseType example_constants example_externals r [] 0x0040 ?s =
          (Inr (VBytes ?s),
           [(ERROR, Logged_exception OverflowError),
            (ERROR, Timestamp_caused_exception (3666059867541910323 / 2000000)),
            (ERROR, Raw_property r)])" for r
    using time_overflow_caught [OF a b, of OverflowError r "[]"] c by simp
  then show ?thesis
    by (simp add: createProp_def FixedLengthProp_init_def PropBase_init_def d example_STFIX
        example_tables propBase.defs)
qed

subsection \<open>Currency\<close>

text \<open>
  Rounding to binary64 moves a rational by at most half a unit in the last place, so
  it stays finite far beyond the 64-bit integers; and an integer of at most 53 bits is a
  binary64 number.
\<close>

lemma round_half_even_error: "\<bar>of_int (round_half_even q) - q\<bar> \<le> 1 / 2"
proof -
  have "of_int \<lfloor>q\<rfloor> \<le> q" "q < of_int \<lfloor>q\<rfloor> + 1"
    by linarith+
  then show ?thesis
    by (auto simp: round_half_even_def Let_def)
qed

lemma ilog2_lower:
  assumes "0 < a"
  shows "2 powi ilog2 a \<le> a"
proof (cases "1 \<le> a")
  case True
  then have pos: "0 < \<lfloor>a\<rfloor>" by linarith
  from bitlen_bounds [OF pos] have "2 ^ nat (bitlen \<lfloor>a\<rfloor> - 1) \<le> \<lfloor>a\<rfloor>" ..
  then have "(of_int (2 ^ nat (bitlen \<lfloor>a\<rfloor> - 1)) :: rat) \<le> of_int \<lfloor>a\<rfloor>"
    by (simp only: of_int_le_iff)
  also have "\<dots> \<le> a" by simp
  finally have "(2 :: rat) ^ nat (bitlen \<lfloor>a\<rfloor> - 1) \<le> a" by simp
  moreover have "0 \<le> bitlen \<lfloor>a\<rfloor> - 1"
    using pos bitlen_eq_zero_iff [of "\<lfloor>a\<rfloor>"] bitlen_nonneg [of "\<lfloor>a\<rfloor>"] by linarith
  ultimately show ?thesis
    using True by (simp add: ilog2_def power_int_def)
next
  case False
  let ?c = "\<lceil>1 / a\<rceil>"
  let ?j = "bitlen (?c - 1)"
  from False assms have "1 < 1 / a" by simp
  then have c2: "2 \<le> ?c" by linarith
  then have pos: "0 < ?c - 1" by simp
  from bitlen_bounds [OF pos] have "?c - 1 < 2 ^ nat ?j" ..
  then have "?c \<le> 2 ^ nat ?j" by simp
  then have "(of_int ?c :: rat) \<le> of_int (2 ^ nat ?j)"
    by (simp only: of_int_le_iff)
  then have "(of_int ?c :: rat) \<le> 2 ^ nat ?j"
    by (simp only: of_int_power of_int_numeral)
  moreover have "1 / a \<le> of_int ?c" by (rule le_of_int_ceiling)
  ultimately have "1 / a \<le> 2 ^ nat ?j" by (rule order_trans [rotated])
  with assms have "1 / 2 ^ nat ?j \<le> a"
    by (simp add: field_simps)
  moreover have "0 \<le> ?j" by (rule bitlen_nonneg)
  then have "(2 :: rat) powi (- ?j) = 1 / 2 ^ nat ?j"
    by (simp add: power_int_minus power_int_def field_simps)
  ultimately show ?thesis
    using False by (simp add: ilog2_def)
qed

lemma nearest_binary64_bound: "\<bar>nearest_binary64 x\<bar> \<le> 2 * \<bar>x\<bar> + 1"
proof (cases "x = 0")
  case True
  then show ?thesis by (simp add: nearest_binary64_def)
next
  case False
  define e where "e = max (ilog2 \<bar>x\<bar>) (- 1022)"
  define ulp :: rat where "ulp = 2 powi (e - 52)"
  have ulp_pos: "0 < ulp" by (simp add: ulp_def)
  have ulp_le: "ulp \<le> \<bar>x\<bar> + 1"
  proof (cases "ilog2 \<bar>x\<bar> \<le> - 1022")
    case True
    then have "e - 52 \<le> 0" by (simp add: e_def)
    then have "ulp \<le> 2 powi 0"
      unfolding ulp_def by (intro power_int_increasing) simp_all
    then show ?thesis by simp
  next
    case False
    then have "e = ilog2 \<bar>x\<bar>" by (simp add: e_def)
    then have "ulp \<le> 2 powi ilog2 \<bar>x\<bar>"
      unfolding ulp_def by (intro power_int_increasing) simp_all
    also have "\<dots> \<le> \<bar>x\<bar>" using \<open>x \<noteq> 0\<close> by (intro ilog2_lower) simp
    finally show ?thesis by simp
  qed
  have eq: "nearest_binary64 x = of_int (round_half_even (x / ulp)) * ulp"
    using False by (simp add: nearest_binary64_def e_def ulp_def Let_def)
  have "\<bar>of_int (round_half_even (x / ulp)) - x / ulp\<bar> \<le> 1 / 2"
    by (rule round_half_even_error)
  then have "\<bar>of_int (round_half_even (x / ulp)) - x / ulp\<bar> * ulp \<le> 1 / 2 * ulp"
    using ulp_pos by (intro mult_right_mono) simp_all
  moreover have "of_int (round_half_even (x / ulp)) * ulp - x =
      (of_int (round_half_even (x / ulp)) - x / ulp) * ulp"
    using ulp_pos by (simp add: field_simps)
  then have "\<bar>of_int (round_half_even (x / ulp)) * ulp - x\<bar> =
      \<bar>of_int (round_half_even (x / ulp)) - x / ulp\<bar> * ulp"
    using ulp_pos by (simp only: abs_mult abs_of_pos)
  ultimately have "\<bar>of_int (round_half_even (x / ulp)) * ulp - x\<bar> \<le> ulp / 2"
    by simp
  with ulp_le show ?thesis unfolding eq by linarith
qed

lemma round_binary64_finite:
  assumes "\<bar>x\<bar> \<le> 2 ^ 1000"
  shows "round_binary64 x = Finite (nearest_binary64 x)"
proof -
  have "\<bar>nearest_binary64 x\<bar> \<le> 2 * \<bar>x\<bar> + 1" by (rule nearest_binary64_bound)
  also have "\<dots> \<le> 2 * 2 ^ 1000 + 1" using assms by simp
  also have "\<dots> < (2 :: rat) ^ 1024" by simp
  finally show ?thesis by (simp add: round_binary64_def Let_def)
qed


lemma nearest_binary64_exact:
  assumes "x / 2 powi (max (ilog2 \<bar>x\<bar>) (- 1022) - 52) = of_int m"
  shows "nearest_binary64 x = x"
proof (cases "x = 0")
  case True
  then show ?thesis by (simp add: nearest_binary64_def)
next
  case False
  define ulp :: rat where "ulp = 2 powi (max (ilog2 \<bar>x\<bar>) (- 1022) - 52)"
  have ulp_pos: "0 < ulp" by (simp add: ulp_def)
  from assms have m: "x / ulp = of_int m" by (simp add: ulp_def)
  have "nearest_binary64 x = of_int (round_half_even (x / ulp)) * ulp"
    using False by (simp add: nearest_binary64_def ulp_def Let_def)
  also have "\<dots> = x / ulp * ulp" by (simp add: m round_half_even_def)
  also have "\<dots> = x" using ulp_pos by simp
  finally show ?thesis .
qed

lemma nearest_binary64_of_int:
  assumes "\<bar>n\<bar> \<le> 2 ^ 53"
  shows "nearest_binary64 (of_int n) = of_int n"
proof (cases "n = 0")
  case True
  then show ?thesis by (simp add: nearest_binary64_def)
next
  case False
  let ?x = "of_int n :: rat"
  define e where "e = max (ilog2 \<bar>?x\<bar>) (- 1022)"
  have pos: "0 < \<bar>?x\<bar>" using False by simp
  have low: "2 powi ilog2 \<bar>?x\<bar> \<le> \<bar>?x\<bar>" by (rule ilog2_lower [OF pos])
  have "\<bar>?x\<bar> = of_int \<bar>n\<bar>" by simp
  also have "\<dots> \<le> of_int (2 ^ 53)" using assms by (simp only: of_int_le_iff)
  finally have up: "\<bar>?x\<bar> \<le> 2 powi 53" by simp
  from low up have "(2 :: rat) powi ilog2 \<bar>?x\<bar> \<le> 2 powi 53" by (rule order_trans)
  then have le53: "ilog2 \<bar>?x\<bar> \<le> 53"
    by (rule power_int_le_imp_le_exp [rotated]) simp_all
  show ?thesis
  proof (cases "e \<le> 52")
    case True
    define k where "k = nat (52 - e)"
    have "e - 52 = - int k" using True by (simp add: k_def)
    then have "(2 :: rat) powi (e - 52) = 2 powi (- int k)" by (simp only:)
    also have "\<dots> = 1 / 2 ^ k" by (simp add: power_int_minus field_simps)
    finally have "(2 :: rat) powi (e - 52) = 1 / 2 ^ k" .
    then have "?x / 2 powi (e - 52) = of_int (n * 2 ^ k)" by simp
    then show ?thesis unfolding e_def by (rule nearest_binary64_exact)
  next
    case False
    with le53 have e53: "ilog2 \<bar>?x\<bar> = 53" "e = 53" by (simp_all add: e_def)
    with low have "(2 :: rat) ^ 53 \<le> \<bar>?x\<bar>" by simp
    also have "\<bar>?x\<bar> = of_int \<bar>n\<bar>" by simp
    finally have "(of_int (2 ^ 53) :: rat) \<le> of_int \<bar>n\<bar>" by simp
    then have "2 ^ 53 \<le> \<bar>n\<bar>" by (simp only: of_int_le_iff)
    with assms have "n = 2 ^ 53 \<or> n = - (2 ^ 53)" by linarith
    then have "?x / 2 powi (e - 52) = of_int (n div 2)"
      using e53 by auto
    then show ?thesis unfolding e_def by (rule nearest_binary64_exact)
  qed
qed


lemma float_of_int_64:
  assumes "\<bar>n\<bar> \<le> 2 ^ 63"
  shows "float_of_int n = Inr (Finite (nearest_binary64 (of_int n)))"
proof -
  have "\<bar>of_int n :: rat\<bar> = of_int \<bar>n\<bar>" by simp
  also have "\<dots> \<le> of_int (2 ^ 63)" using assms by (simp only: of_int_le_iff)
  also have "\<dots> \<le> (2 :: rat) ^ 1000" by simp
  finally have "round_binary64 (of_int n) = Finite (nearest_binary64 (of_int n))"
    by (rule round_binary64_finite)
  then show ?thesis by (simp add: float_of_int_def)
qed

lemma int_truediv_float_64:
  assumes "\<bar>n\<bar> \<le> 2 ^ 63"
  shows "int_truediv_float n (Finite 10000) =
           Inr (Finite (nearest_binary64 (nearest_binary64 (of_int n) / 10000)))"
proof -
  let ?a = "nearest_binary64 (of_int n)"
  have "\<bar>of_int n :: rat\<bar> = of_int \<bar>n\<bar>" by simp
  also have "\<dots> \<le> of_int (2 ^ 63)" using assms by (simp only: of_int_le_iff)
  finally have n: "\<bar>of_int n :: rat\<bar> \<le> 2 ^ 63" by simp
  have "\<bar>?a\<bar> \<le> 2 * \<bar>of_int n\<bar> + 1" by (rule nearest_binary64_bound)
  with n have "\<bar>?a\<bar> \<le> 2 * 2 ^ 63 + 1" by linarith
  then have "\<bar>?a / 10000\<bar> \<le> (2 * 2 ^ 63 + 1) / 10000" by (simp add: divide_right_mono)
  also have "\<dots> \<le> (2 :: rat) ^ 1000" by simp
  finally have "round_binary64 (?a / 10000) = Finite (nearest_binary64 (?a / 10000))"
    by (rule round_binary64_finite)
  then show ?thesis
    by (simp add: int_truediv_float_def float_of_int_64 [OF assms])
qed

lemma nearest_binary64_12_3456:
  "nearest_binary64 (123456 / 10000) = 6949954944958149 / 562949953421312"
  by code_simp

text \<open>
  Claim C7.  For the type \<open>0x0006\<close> the decoded value is the signed 64-bit integer
  divided by 10000 as Python divides an \<open>int\<close> by the float \<open>10000.0\<close>: the integer
  is rounded to binary64 and the quotient is rounded to binary64; nothing is raised and
  nothing is logged.  For an integer of at most 53 bits the first rounding is exact, and
  the value is the binary64 number nearest to the exact quotient.
\<close>

theorem currency_decode:
  assumes "STI64 C stream = Inr n" and "- (2 ^ 63) \<le> n" and "n < 2 ^ 63"
  shows "\<exists>v. parseType C X self_raw lg 0x0006 stream = (Inr (VFloat (Finite v)), lg) \<and>
             v = nearest_binary64 (nearest_binary64 (of_int n) / 10000) \<and>
             (\<bar>n\<bar> \<le> 2 ^ 53 \<longrightarrow> v = nearest_binary64 (of_int n / 10000))"
proof -
  from assms(2,3) have "\<bar>n\<bar> \<le> 2 ^ 63" by simp
  then have "int_truediv_float n (Finite 10000) =
      Inr (Finite (nearest_binary64 (nearest_binary64 (of_int n) / 10000)))"
    by (rule int_truediv_float_64)
  with assms(1) show ?thesis
    by (simp add: parseType_def nearest_binary64_of_int)
qed

text \<open>
  The raw integer 123456 decodes to the binary64 number nearest to 12.3456, which is
  what the literal \<open>12.3456\<close> denotes.
\<close>

theorem currency_decode_example:
  "parseType example_constants example_externals [] [] 0x0006
     [0x40, 0xE2, 0x01, 0x00, 0x00, 0x00, 0x00, 0x00] =
   (Inr (VFloat (Finite (6949954944958149 / 562949953421312))), [])"
proof -
  have a: "STI64 example_constants [0x40, 0xE2, 0x01, 0x00, 0x00, 0x00, 0x00, 0x00] = Inr 123456"
    by (simp add: example_STI64 le_sint_def le_uint_def)
  from currency_decode [OF a, of example_externals "[]" "[]"]
  obtain v where p: "parseType example_constants example_externals [] [] 0x0006
       [0x40, 0xE2, 0x01, 0x00, 0x00, 0x00, 0x00, 0x00] = (Inr (VFloat (Finite v)), [])"
    and v: "\<bar>123456 :: int\<bar> \<le> 2 ^ 53 \<longrightarrow> v = nearest_binary64 (of_int 123456 / 10000)"
    by auto
  from v have "v = nearest_binary64 (123456 / 10000)" by simp
  then have "v = 6949954944958149 / 562949953421312"
    by (simp only: nearest_binary64_12_3456)
  with p show ?thesis by (simp only:)
qed

subsection \<open>Entry identifiers\<close>

text \<open>
  Every line of the body of \<open>EntryIDType\<close>, evaluated: the signature resolves, the
  member it resolves to converts to hex and back, and the hex member carries the
  hexadecimal encoding of the signature.
\<close>

lemma EntryIDType_checked:
  "list_all
     (\<lambda>(n, b).
        case enum_call EntryIDType b of
          Inl _ \<Rightarrow> False
        | Inr k \<Rightarrow>
            snd k = b \<and> length b = 16 \<and> enum_getitem EntryIDType n = Inr k \<and>
            (case toHex k of
               Inl _ \<Rightarrow> False
             | Inr h \<Rightarrow>
                 snd h = hexEncode b \<and> toRaw h = Inr k \<and>
                 enum_call EntryIDTypeHex (hexEncode b) = Inr h \<and>
                 enum_getitem EntryIDTypeHex n = Inr h))
     EntryIDType"
  by code_simp

lemma EntryIDTypeHex_names:
  "map (\<lambda>(n, b). (n, hexEncode b)) EntryIDType = EntryIDTypeHex"
  by code_simp

text \<open>
  Claim C5.  For every name \<open>n\<close> and 16-byte signature \<open>b\<close> of \<open>EntryIDType\<close>:
  \<open>EntryIDType(b)\<close> is a member \<open>k\<close> with the value \<open>b\<close>; \<open>k.toHex()\<close> is a member
  \<open>h\<close> of \<open>EntryIDTypeHex\<close> whose value is the hexadecimal encoding of \<open>b\<close>;
  \<open>h.toRaw()\<close> is \<open>k\<close> again; looking the hexadecimal string up in
  \<open>EntryIDTypeHex\<close> gives \<open>h\<close>; and the name \<open>n\<close> resolves in both classes, to \<open>k\<close>
  and to \<open>h\<close>.  This holds for \<open>ADDRESS_BOOK_RECIPIENT\<close> and \<open>PERMANENT\<close> too, which
  share a signature and so name one member.
\<close>

theorem entry_id_round_trip:
  assumes "(n, b) \<in> set EntryIDType"
  shows "\<exists>k h. enum_call EntryIDType b = Inr k \<and> snd k = b \<and> length b = 16 \<and>
           toHex k = Inr h \<and> snd h = hexEncode b \<and>
           toRaw h = Inr k \<and>
           enum_call EntryIDTypeHex (hexEncode b) = Inr h \<and>
           enum_getitem EntryIDType n = Inr k \<and> enum_getitem EntryIDTypeHex n = Inr h \<and>
           (n, hexEncode b) \<in> set EntryIDTypeHex"
proof -
  from EntryIDType_checked assms
  have "case enum_call EntryIDType b of
          Inl _ \<Rightarrow> False
        | Inr k \<Rightarrow>
            snd k = b \<and> length b = 16 \<and> enum_getitem EntryIDType n = Inr k \<and>
            (case toHex k of
               Inl _ \<Rightarrow> False
             | Inr h \<Rightarrow>
                 snd h = hexEncode b \<and> toRaw h = Inr k \<and>
                 enum_call EntryIDTypeHex (hexEncode b) = Inr h \<and>
                 enum_getitem EntryIDTypeHex n = Inr h)"
    unfolding list_all_iff by blast
  moreover from assms
  have "(n, hexEncode b) \<in> set (map (\<lambda>(n, b). (n, hexEncode b)) EntryIDType)"
    by force
  then have "(n, hexEncode b) \<in> set EntryIDTypeHex"
    by (simp only: EntryIDTypeHex_names)
  ultimately show ?thesis
    by (auto split: sum.splits)
qed

lemma PERMANENT_member:
  "(''PERMANENT'',
    [0xDC, 0xA7, 0x40, 0xC8, 0xC0, 0x42, 0x10, 0x1A,
     0xB4, 0xB9, 0x08, 0x00, 0x2B, 0x2F, 0xE1, 0x82]) \<in> set EntryIDType"
  by (simp add: EntryIDType_def)

lemma PERMANENT_call:
  "enum_call EntryIDType
     [0xDC, 0xA7, 0x40, 0xC8, 0xC0, 0x42, 0x10, 0x1A,
      0xB4, 0xB9, 0x08, 0x00, 0x2B, 0x2F, 0xE1, 0x82] =
   Inr (''ADDRESS_BOOK_RECIPIENT'',
     [0xDC, 0xA7, 0x40, 0xC8, 0xC0, 0x42, 0x10, 0x1A,
      0xB4, 0xB9, 0x08, 0x00, 0x2B, 0x2F, 0xE1, 0x82])"
  by (simp add: EntryIDType_def)

lemma PERMANENT_hex:
  "hexEncode [0xDC, 0xA7, 0x40, 0xC8, 0xC0, 0x42, 0x10, 0x1A,
      0xB4, 0xB9, 0x08, 0x00, 0x2B, 0x2F, 0xE1, 0x82] = ''DCA740C8C042101AB4B908002B2FE182''"
  by code_simp

text \<open>
  The name \<open>PERMANENT\<close>: it resolves, in both classes, to the member named
  \<open>ADDRESS_BOOK_RECIPIENT\<close>, and that member round-trips.
\<close>

theorem entry_id_round_trip_PERMANENT:
  "enum_getitem EntryIDType ''PERMANENT'' =
     Inr (''ADDRESS_BOOK_RECIPIENT'',
       [0xDC, 0xA7, 0x40, 0xC8, 0xC0, 0x42, 0x10, 0x1A,
        0xB4, 0xB9, 0x08, 0x00, 0x2B, 0x2F, 0xE1, 0x82]) \<and>
   (\<exists>h. enum_getitem EntryIDTypeHex ''PERMANENT'' = Inr h \<and>
        snd h = ''DCA740C8C042101AB4B908002B2FE182'' \<and>
        toHex (''ADDRESS_BOOK_RECIPIENT'',
          [0xDC, 0xA7, 0x40, 0xC8, 0xC0, 0x42, 0x10, 0x1A,
           0xB4, 0xB9, 0x08, 0x00, 0x2B, 0x2F, 0xE1, 0x82]) = Inr h \<and>
        toRaw h = Inr (''ADDRESS_BOOK_RECIPIENT'',
          [0xDC, 0xA7, 0x40, 0xC8, 0xC0, 0x42, 0x10, 0x1A,
           0xB4, 0xB9, 0x08, 0x00, 0x2B, 0x2F, 0xE1, 0x82]))"
  using entry_id_round_trip [OF PERMANENT_member]
  by (auto simp only: PERMANENT_call PERMANENT_hex sum.inject)

subsection \<open>The header of a meeting forward notification\<close>

lemma header_item_recurrence:
  "header_item
     [(''-main info-'', a), (''-date-'', b),
      (''-recurrence-'', (''Recurrance'', v) # c), (''-attendees-'', d), (''-importance-'', e)]
     ''-recurrence-'' ''Recurrance'' = Some v"
  by (simp add: header_item_def)

text \<open>
  Claim C9.  When the two dates format and the pattern type, if there is a recurrence,
  is one of the eight the table lists, \<open>headerFormatProperties\<close> returns a header block
  whose entry \<open>Recurrance\<close> of the section \<open>-recurrence-\<close> is \<open>(none)\<close> for an object
  without \<open>appointmentRecur\<close>, \<open>Daily\<close> for \<open>DAY\<close>, \<open>Weekly\<close> for \<open>WEEK\<close>, and
  \<open>Monthly\<close> for each of the six month patterns.
\<close>

theorem header_recurrence:
  assumes "format_if_set fmt (startDate self) (datetimeFormat self) = Inr s"
    and "format_if_set fmt (endDate self) (datetimeFormat self) = Inr e"
    and "case appointmentRecur self of
           None \<Rightarrow> True
         | Some r \<Rightarrow>
             patternType r \<in> set [DAY, WEEK, MONTH, MONTH_NTH, MONTH_END,
                                   HJ_MONTH, HJ_MONTH_NTH, HJ_MONTH_END]"
  shows "\<exists>h. headerFormatProperties fmt self = Inr h \<and>
           header_item h ''-recurrence-'' ''Recurrance'' =
             Some (Some (case appointmentRecur self of
                           None \<Rightarrow> ''(none)''
                         | Some r \<Rightarrow>
                             if patternType r = DAY then ''Daily''
                             else if patternType r = WEEK then ''Weekly''
                             else ''Monthly''))"
proof (cases "appointmentRecur self")
  case None
  with assms(1,2) show ?thesis
    by (simp add: headerFormatProperties_def header_item_recurrence)
next
  case (Some r)
  with assms(3) have "patternType r \<in> set [DAY, WEEK, MONTH, MONTH_NTH, MONTH_END,
                                   HJ_MONTH, HJ_MONTH_NTH, HJ_MONTH_END]"
    by simp
  then consider "patternType r = DAY" | "patternType r = WEEK" | "patternType r = MONTH"
    | "patternType r = MONTH_NTH" | "patternType r = MONTH_END" | "patternType r = HJ_MONTH"
    | "patternType r = HJ_MONTH_NTH" | "patternType r = HJ_MONTH_END"
    by auto
  then show ?thesis
    using Some assms(1,2)
    by cases (simp_all add: headerFormatProperties_def header_item_recurrence)
qed

text \<open>No recurrence, \<open>DAY\<close>, \<open>WEEK\<close> and one of the month patterns.\<close>

lemma example_meeting_dates:
  "format_if_set example_format (startDate (example_meeting r))
     (datetimeFormat (example_meeting r)) = Inr (Some ''Fri Jan  2 00:00:00 1970'')"
  "format_if_set example_format (endDate (example_meeting r))
     (datetimeFormat (example_meeting r)) = Inr None"
  by (simp_all add: format_if_set_def example_meeting_def example_format_def)

lemma example_meeting_recur: "appointmentRecur (example_meeting r) = r"
  by (simp add: example_meeting_def)

theorem header_recurrence_examples:
  "(\<exists>h. headerFormatProperties example_format (example_meeting None) = Inr h \<and>
        header_item h ''-recurrence-'' ''Recurrance'' = Some (Some ''(none)'')) \<and>
   (\<exists>h. headerFormatProperties example_format
          (example_meeting (Some \<lparr> patternType = DAY \<rparr>)) = Inr h \<and>
        header_item h ''-recurrence-'' ''Recurrance'' = Some (Some ''Daily'')) \<and>
   (\<exists>h. headerFormatProperties example_format
          (example_meeting (Some \<lparr> patternType = WEEK \<rparr>)) = Inr h \<and>
        header_item h ''-recurrence-'' ''Recurrance'' = Some (Some ''Weekly'')) \<and>
   (\<exists>h. headerFormatProperties example_format
          (example_meeting (Some \<lparr> patternType = HJ_MONTH_NTH \<rparr>)) = Inr h \<and>
        header_item h ''-recurrence-'' ''Recurrance'' = Some (Some ''Monthly''))"
  using header_recurrence [OF example_meeting_dates, of None]
    header_recurrence [OF example_meeting_dates, of "Some \<lparr> patternType = DAY \<rparr>"]
    header_recurrence [OF example_meeting_dates, of "Some \<lparr> patternType = WEEK \<rparr>"]
    header_recurrence [OF example_meeting_dates, of "Some \<lparr> patternType = HJ_MONTH_NTH \<rparr>"]
  by (simp add: example_meeting_recur)

text \<open>A pattern type the table does not list is a \<open>KeyError\<close>.\<close>

lemma unlisted_pattern_raises:
  assumes "appointmentRecur self = Some r" and "patternType r = Other_pattern n"
  shows "headerFormatProperties fmt self = Inl KeyError"
  using assms by (simp add: headerFormatProperties_def)

end
